theory Spec2Isabelle
  imports Complex_Main
begin

section \<open>JavaScript values and strings\<close>

text \<open>
  The embedding follows \<^verbatim>\<open>packages/smartlabel/src/SmartlabelManager.js\<close>.
  A JavaScript string is a list of code units; the model keeps the units below 256, so
  that a \<^typ>\<open>char\<close> is one unit. JavaScript numbers are modelled by rationals:
  the arithmetic of the source (sums, one division, comparisons) is exact here, where
  the source rounds to doubles.
\<close>

text \<open>
  The regular expression class \<^verbatim>\<open>\s\<close> on the modelled code units: tab, line feed,
  vertical tab, form feed, carriage return, space and the no-break space.
\<close>

definition isSpace :: "char \<Rightarrow> bool" where
  "isSpace c = (c \<in> set [CHR 0x09, CHR 0x0A, CHR 0x0B, CHR 0x0C, CHR 0x0D, CHR 0x20, CHR 0xA0])"

text \<open>
  A value that can stand in a property or an argument where the source expects a string:
  \<^verbatim>\<open>undefined\<close>, \<^verbatim>\<open>null\<close>, a string, an array of strings, or any other value, given by its
  truthiness and by what its \<^verbatim>\<open>toString()\<close> returns.
\<close>

datatype jsval =
    JUndefined
  | JNull
  | JString string
  | JArray "string list"
  | JOther bool string


text \<open>\<^verbatim>\<open>Array.prototype.join\<close> with a separator.\<close>

fun joinWith :: "string \<Rightarrow> string list \<Rightarrow> string" where
  "joinWith sep [] = []"
| "joinWith sep [x] = x"
| "joinWith sep (x # y # ys) = x @ sep @ joinWith sep (y # ys)"

text \<open>
  \<^verbatim>\<open>toString()\<close> of a value that has the method; \<^verbatim>\<open>undefined\<close> and \<^verbatim>\<open>null\<close>
  have none, and the source never calls it on them.
\<close>

fun toStringOf :: "jsval \<Rightarrow> string" where
  "toStringOf (JString s) = s"
| "toStringOf (JArray xs) = joinWith '','' xs"
| "toStringOf (JOther b s) = s"
| "toStringOf JUndefined = ''undefined''"
| "toStringOf JNull = ''null''"

section \<open>textToLines\<close>













section \<open>The measuring surface and the manager\<close>

text \<open>
  A style, as far as the manager reads it: the four font fields as the strings they add
  to a cache key (\<^verbatim>\<open>style.fontSize || ''\<close>: the empty string when the field is
  falsy), and the identity of the style object, which \<^verbatim>\<open>setStyle\<close> compares.
\<close>

record style =
  oid :: nat
  fontSize :: string
  fontFamily :: string
  fontWeight :: string
  fontStyle :: string

text \<open>
  What the container manager hands out for a style: the DOM node that measures
  (\<^verbatim>\<open>node\<close>), a canvas context and an SVG text node when the environment has them,
  the cache of single characters, the line height, and the widths of the ellipsis and of
  one dot. DOM nodes are numbers here. The character cache maps a character to the
  width in its \<^verbatim>\<open>{width: ...}\<close> entry.
\<close>

record containerObj =
  co_node :: "nat option"
  co_context :: "nat option"
  co_svgText :: "nat option"
  co_charCache :: "string \<rightharpoonup> rat"
  co_lineHeight :: rat
  co_ellipsesWidth :: rat
  co_dotWidth :: rat

text \<open>
  Numbers are the rationals that are doubles: the environment below rounds every sum,
  difference, product and quotient of the source to a double (\<open>toDouble\<close>). Infinities
  and \<^verbatim>\<open>NaN\<close> as results of the arithmetic are not modelled: the sizes are finite, and
  the only divisor is a length plus one.

  An entry of the advanced cache: the number stored under a correction key (\<open>CNum\<close>),
  or a string stored under a plain key. The string \<^verbatim>\<open>width + ',' + height\<close> of two
  numbers is kept as its two numbers (\<open>CDim\<close>: \<^verbatim>\<open>parseFloat\<close> reads back the number
  that was printed); \<open>CStr\<close> is any other string, which is what is stored when the
  correction key held a string.
\<close>

datatype cval = CNum rat | CDim rat rat | CStr string

record smartLabel =
  sl_text :: string
  sl_maxWidth :: rat
  sl_maxHeight :: rat
  sl_width :: "rat option"
  sl_height :: "rat option"
  sl_oriTextWidth :: "rat option"
  sl_oriTextHeight :: "rat option"
  sl_oriText :: string
  sl_isTruncated :: bool
  sl_tooltext :: "string option"
  sl_error :: "string option"

text \<open>
  How a call ends: it returns \<^verbatim>\<open>false\<close>, \<^verbatim>\<open>undefined\<close> or a value, or it throws a
  \<^verbatim>\<open>TypeError\<close> (a property read or a method call on \<^verbatim>\<open>undefined\<close> or on a
  number). \<open>NotANumber\<close> marks the places where \<^verbatim>\<open>_calCharDimWithCache\<close> returns a
  size that is not made of two numbers: its width is a string
  (\<^verbatim>\<open>offsetWidth + asymmetricDifference\<close> when the correction key holds a string), or
  \<^verbatim>\<open>parseFloat\<close> gave \<^verbatim>\<open>NaN\<close>. The source does not throw there; the embedding
  records what the call did to the cache and does not follow the returned size further.
\<close>

datatype 'a outcome = Falsy | Undefined | Value 'a | TypeError | NotANumber

text \<open>The value a call returned, if it returned one.\<close>

definition valueOf :: "'a outcome \<Rightarrow> 'a option" where
  "valueOf r = (case r of Value v \<Rightarrow> Some v | other \<Rightarrow> None)"

text \<open>
  The world outside the file: the DOM's measurements, the flags of
  \<^verbatim>\<open>getDocumentSupport()\<close>, and the parts of \<^verbatim>\<open>./lib\<close> and
  \<^verbatim>\<open>./container-manager\<close> the manager calls. \<open>offsetWidth env n s\<close> is
  \<^verbatim>\<open>offsetWidth\<close> of node \<open>n\<close> once its \<^verbatim>\<open>innerHTML\<close> is \<open>s\<close>; \<open>bboxWidth env n s\<close> is
  \<^verbatim>\<open>getBBox().width\<close> of the SVG text node \<open>n\<close> with \<^verbatim>\<open>textContent\<close> \<open>s\<close>.
  \<open>ltgtReplace\<close> is \<^verbatim>\<open>text.replace(slLib.ltgtRegex, ...)\<close>, \<open>xmlTagRegEx\<close> is
  \<^verbatim>\<open>slLib.xmlTagRegEx.test\<close>, \<open>getNearestBreakIndex\<close> is the function of that name
  in \<^verbatim>\<open>./lib\<close>, \<open>cmGet\<close> is \<^verbatim>\<open>ContainerManager.get\<close>, \<open>setLineHeight\<close> is
  \<^verbatim>\<open>slLib.setLineHeight\<close>. \<open>markupPath\<close> stands for lines 577 to 748 of the source,
  the layout of a text with markup, which reads the geometry of the rendered DOM nodes:
  it is given the normalised text, the bounds, \<^verbatim>\<open>noWrap\<close> and the label built so far.

  The runtime is part of that world. \<open>toDouble\<close> is the rounding of an exact result to
  the double the arithmetic returns. \<open>numToString\<close> is the string a number becomes when
  it is added to a string, \<open>parseFloat\<close> the function of that name (\<open>None\<close> is
  \<^verbatim>\<open>NaN\<close>). \<open>inherited\<close> has the names every object inherits from
  \<^verbatim>\<open>Object.prototype\<close> (\<^verbatim>\<open>constructor\<close>, \<^verbatim>\<open>toString\<close>, ...), each with the string
  the inherited value becomes when it is written to \<^verbatim>\<open>innerHTML\<close> or joined.
\<close>

record env =
  offsetWidth :: "nat \<Rightarrow> string \<Rightarrow> rat"
  offsetHeight :: "nat \<Rightarrow> string \<Rightarrow> rat"
  bboxWidth :: "nat \<Rightarrow> string \<Rightarrow> rat"
  isWebKit :: bool
  isBrowserLess :: bool
  xmlTagRegEx :: "string \<Rightarrow> bool"
  ltgtReplace :: "string \<Rightarrow> string"
  getNearestBreakIndex :: "string \<Rightarrow> rat \<Rightarrow> nat"
  markupPath :: "string \<Rightarrow> rat \<Rightarrow> rat \<Rightarrow> bool \<Rightarrow> smartLabel \<Rightarrow> smartLabel"
  cmGet :: "style \<Rightarrow> containerObj option"
  setLineHeight :: "style \<Rightarrow> style"
  toDouble :: "rat \<Rightarrow> rat"
  numToString :: "rat \<Rightarrow> string"
  parseFloat :: "string \<Rightarrow> rat option"
  inherited :: "string \<rightharpoonup> string"

record options =
  maxCacheLimit :: rat

text \<open>
  The fields of a manager; \<open>p_x\<close> is the source's \<^verbatim>\<open>_x\<close>, \<open>m_x\<close> its \<^verbatim>\<open>x\<close>. A field
  that \<^verbatim>\<open>delete\<close> removes, or that is created on first use, is an option
  (\<open>None\<close>: the property is absent and reads as \<^verbatim>\<open>undefined\<close>).
  \<^verbatim>\<open>_styleNotSet\<close> is kept by its truthiness. \<^verbatim>\<open>_lineHeight\<close> is \<^verbatim>\<open>undefined\<close> until
  \<^verbatim>\<open>setStyle\<close> binds a container object, which assigns both; it is used only after
  \<^verbatim>\<open>_containerObj\<close> has been read with success, so the model keeps a number (0 before
  the first binding).
\<close>

record manager =
  p_init :: bool
  m_id :: "string option"
  m_parentContainer :: "nat option"
  p_containerManager :: "nat option"
  p_showNoEllipses :: "bool option"
  m_style :: "style option"
  m_options :: options
  p_containerObj :: "containerObj option"
  p_container :: "nat option"
  p_context :: "nat option"
  p_cache :: "(string \<rightharpoonup> rat) option"
  p_lineHeight :: rat
  p_styleNotSet :: bool
  p_advancedCache :: "(string \<rightharpoonup> cval) option"
  p_advancedCacheKey :: "string list option"

section \<open>The advanced cache\<close>

text \<open>\<^verbatim>\<open>this._advancedCache || (this._advancedCache = {})\<close>, and the same for the key list.\<close>

definition advCache :: "manager \<Rightarrow> (string \<rightharpoonup> cval)" where
  "advCache m = (case p_advancedCache m of None \<Rightarrow> Map.empty | Some c \<Rightarrow> c)"

definition advKeys :: "manager \<Rightarrow> string list" where
  "advKeys m = (case p_advancedCacheKey m of None \<Rightarrow> [] | Some ks \<Rightarrow> ks)"

text \<open>The two cache names of a text under the manager's style (\<^verbatim>\<open>this.style || {}\<close>).\<close>

definition styleSuffix :: "manager \<Rightarrow> string" where
  "styleSuffix m =
     (case m_style m of
        None \<Rightarrow> []
      | Some st \<Rightarrow> fontSize st @ fontFamily st @ fontWeight st @ fontStyle st)"

definition cacheName :: "manager \<Rightarrow> string \<Rightarrow> string" where
  "cacheName m t = t @ styleSuffix m"

definition cacheInitName :: "manager \<Rightarrow> string \<Rightarrow> string" where
  "cacheInitName m t = t @ ''init'' @ styleSuffix m"

text \<open>
  \<^verbatim>\<open>htmlSplCharSpace[text] && (text = htmlSplCharSpace[text])\<close>: the table has the one
  key \<^verbatim>\<open>' '\<close> of its own, and it is a plain object, so a text that is the name of an
  inherited property finds the inherited function or object, which is truthy and takes
  the place of the text. From there on the text is only written to \<^verbatim>\<open>innerHTML\<close> and
  repeated (a function has no \<^verbatim>\<open>repeat\<close>, so \<^verbatim>\<open>Array(length + 1).join(text)\<close>
  repeats its string): the model keeps the string.
\<close>

definition htmlSplCharSpace :: "env \<Rightarrow> string \<Rightarrow> string" where
  "htmlSplCharSpace e t =
     (if t = '' '' then ''&nbsp;''
      else (case inherited e t of Some shown \<Rightarrow> shown | None \<Rightarrow> t))"

text \<open>
  One insertion into the advanced cache: the entry is written, the key is pushed at the
  end of the key list, and when the list is then longer than the limit its first key is
  shifted out and deleted from the cache.
\<close>

definition cachePut :: "rat \<Rightarrow> string \<Rightarrow> cval \<Rightarrow> (string \<rightharpoonup> cval) \<times> string list
    \<Rightarrow> (string \<rightharpoonup> cval) \<times> string list" where
  "cachePut limit k v ck =
     (let cache = (fst ck)(k \<mapsto> v);
          keys = snd ck @ [k]
      in if of_nat (length keys) > limit
         then (cache(hd keys := None), tl keys)
         else (cache, keys))"

text \<open>\<^verbatim>\<open>text.repeat(length)\<close>.\<close>

definition repeatStr :: "nat \<Rightarrow> string \<Rightarrow> string" where
  "repeatStr n t = concat (replicate n t)"

record size =
  sz_width :: rat
  sz_height :: rat

text \<open>The manager with the cache and the key list as a call leaves them.\<close>

definition storeCache :: "manager \<Rightarrow> (string \<rightharpoonup> cval) \<times> string list \<Rightarrow> manager" where
  "storeCache m ck = m\<lparr>p_advancedCache := Some (fst ck), p_advancedCacheKey := Some (snd ck)\<rparr>"

text \<open>
  \<^verbatim>\<open>split(',')\<close>: the pieces between the commas; there is always at least one.
\<close>

fun splitComma :: "string \<Rightarrow> string list" where
  "splitComma [] = [[]]"
| "splitComma (c # cs) =
     (if c = CHR '','' then [] # splitComma cs
      else (case splitComma cs of
              [] \<Rightarrow> [[c]]
            | p # ps \<Rightarrow> (c # p) # ps))"

text \<open>The string an entry is when it is a string.\<close>

definition entryString :: "env \<Rightarrow> cval \<Rightarrow> string" where
  "entryString e v =
     (case v of
        CDim w h \<Rightarrow> numToString e w @ '','' @ numToString e h
      | CStr s \<Rightarrow> s
      | CNum d \<Rightarrow> numToString e d)"

text \<open>
  Lines 157 to 172 of \<^verbatim>\<open>_calCharDimWithCache\<close>: the text is measured, the correction
  added to the width, the size stored under the plain key as
  \<^verbatim>\<open>size.width + ',' + size.height\<close> and returned. The correction is a number (\<open>Inl\<close>)
  or the string that was found under the correction key (\<open>Inr\<close>); with a string the sum
  is the concatenation of the printed width and that string.
\<close>

definition measureSize :: "env \<Rightarrow> manager \<Rightarrow> string \<Rightarrow> string \<Rightarrow> rat + string
    \<Rightarrow> (string \<rightharpoonup> cval) \<times> string list \<Rightarrow> size outcome \<times> manager" where
  "measureSize e m cName t asymmetricDifference ck =
     (case p_container m of
        None \<Rightarrow> (TypeError, storeCache m ck)
      | Some n \<Rightarrow>
          (case asymmetricDifference of
             Inr str \<Rightarrow>
               (NotANumber,
                storeCache m
                  (cachePut (maxCacheLimit (m_options m)) cName
                     (CStr (numToString e (offsetWidth e n t) @ str @ '',''
                            @ numToString e (offsetHeight e n t))) ck))
           | Inl d \<Rightarrow>
               let sz = \<lparr>sz_width = toDouble e (offsetWidth e n t + d),
                         sz_height = offsetHeight e n t\<rparr>
               in (Value sz,
                   storeCache m
                     (cachePut (maxCacheLimit (m_options m)) cName
                        (CDim (sz_width sz) (sz_height sz)) ck))))"

text \<open>
  Lines 151 to 172: the look-up under the plain key and, when what is found is falsy
  (nothing, the number 0, the empty string), the measurement above. A string that is
  found is split at its commas and the first two pieces are read by \<^verbatim>\<open>parseFloat\<close>
  (a missing second piece is \<^verbatim>\<open>undefined\<close> and reads as \<^verbatim>\<open>NaN\<close>); a number that is not
  0 has no \<^verbatim>\<open>split\<close>.
\<close>

definition plainLookup :: "env \<Rightarrow> manager \<Rightarrow> string \<Rightarrow> string \<Rightarrow> rat + string
    \<Rightarrow> (string \<rightharpoonup> cval) \<times> string list \<Rightarrow> size outcome \<times> manager" where
  "plainLookup e m cName t asymmetricDifference ck =
     (case fst ck cName of
        Some (CDim w h) \<Rightarrow> (Value \<lparr>sz_width = w, sz_height = h\<rparr>, storeCache m ck)
      | Some (CStr str) \<Rightarrow>
          if str = [] then measureSize e m cName t asymmetricDifference ck
          else
            (case splitComma str of
               p0 # p1 # rest \<Rightarrow>
                 (case (parseFloat e p0, parseFloat e p1) of
                    (Some w, Some h) \<Rightarrow> (Value \<lparr>sz_width = w, sz_height = h\<rparr>, storeCache m ck)
                  | other \<Rightarrow> (NotANumber, storeCache m ck))
             | other \<Rightarrow> (NotANumber, storeCache m ck))
      | Some (CNum d) \<Rightarrow>
          if d \<noteq> 0 then (TypeError, storeCache m ck)
          else measureSize e m cName t asymmetricDifference ck
      | None \<Rightarrow> measureSize e m cName t asymmetricDifference ck)"

text \<open>
  \<^verbatim>\<open>_calCharDimWithCache(text, calculateDifference, length)\<close>: the guard, the two cache
  names (from the text as it was passed), the correction (0, the entry found under the
  correction key, or the one computed from two measurements and inserted), then the
  look-up above.
\<close>

definition calCharDimWithCache ::
    "env \<Rightarrow> manager \<Rightarrow> string \<Rightarrow> bool \<Rightarrow> nat \<Rightarrow> size outcome \<times> manager" where
  "calCharDimWithCache e m t0 calculateDifference len =
     (if \<not> p_init m then (Falsy, m)
      else
        let limit = maxCacheLimit (m_options m);
            ck = (advCache m, advKeys m);
            cName = cacheName m t0;
            cInitName = cacheInitName m t0;
            t = htmlSplCharSpace e t0
        in if \<not> calculateDifference then plainLookup e m cName t (Inl 0) ck
           else (case fst ck cInitName of
                   Some (CNum d) \<Rightarrow> plainLookup e m cName t (Inl d) ck
                 | Some (CDim w h) \<Rightarrow>
                     plainLookup e m cName t (Inr (entryString e (CDim w h))) ck
                 | Some (CStr str) \<Rightarrow> plainLookup e m cName t (Inr str) ck
                 | None \<Rightarrow>
                    (case p_container m of
                       None \<Rightarrow> (TypeError, storeCache m ck)
                     | Some n \<Rightarrow>
                         let tw = offsetWidth e n (repeatStr len t);
                             twi = offsetWidth e n t;
                             asymmetricDifference =
                               toDouble e (toDouble e (tw - toDouble e (of_nat len * twi))
                                           / (of_nat len + 1))
                         in plainLookup e m cName t (Inl asymmetricDifference)
                              (cachePut limit cInitName (CNum asymmetricDifference) ck))))"

section \<open>getOriSize\<close>

text \<open>\<^verbatim>\<open>Math.round\<close>: the nearest integer, a half rounded up.\<close>

definition jsRound :: "rat \<Rightarrow> rat" where
  "jsRound x = of_int \<lfloor>x + 1 / 2\<rfloor>"

text \<open>
  The loop of \<^verbatim>\<open>getOriSize\<close> over the letters that are left; \<open>l\<close> is the length of the
  whole text. The accumulator holds \<^verbatim>\<open>cumulativeSize\<close>, \<^verbatim>\<open>height\<close> and
  \<^verbatim>\<open>indiSizeStore\<close>; it is \<open>None\<close> once a call has returned a size that is not made
  of two numbers, after which the loop goes on calling (the cache keeps changing) and
  the sum is no number any more. The manager is initialised here, so no call returns
  \<^verbatim>\<open>false\<close> or \<^verbatim>\<open>undefined\<close> (those two cases of the model are never taken); an
  exception ends the loop.
\<close>

record detailed =
  d_width :: rat
  d_height :: rat
  d_detailObj :: "string \<rightharpoonup> rat"

fun oriSizeLoop :: "env \<Rightarrow> nat \<Rightarrow> string \<Rightarrow> (rat \<times> rat \<times> (string \<rightharpoonup> rat)) option \<Rightarrow> manager
    \<Rightarrow> (rat \<times> rat \<times> (string \<rightharpoonup> rat)) outcome \<times> manager" where
  "oriSizeLoop e l [] acc m =
     (case acc of None \<Rightarrow> (NotANumber, m) | Some sizes \<Rightarrow> (Value sizes, m))"
| "oriSizeLoop e l (c # cs) acc m =
     (case calCharDimWithCache e m [c] True l of
        (Value lSize, m') \<Rightarrow>
          oriSizeLoop e l cs
            (case acc of
               None \<Rightarrow> None
             | Some (cumulativeSize, height, indiSizeStore) \<Rightarrow>
                 Some (toDouble e (cumulativeSize + sz_width lSize),
                       max height (sz_height lSize),
                       indiSizeStore([c] \<mapsto> sz_width lSize))) m'
      | (NotANumber, m') \<Rightarrow> oriSizeLoop e l cs None m'
      | (TypeError, m') \<Rightarrow> (TypeError, m')
      | (Falsy, m') \<Rightarrow> (Falsy, m')
      | (Undefined, m') \<Rightarrow> (Undefined, m'))"

text \<open>
  \<^verbatim>\<open>getOriSize(text, detailedCalculationFlag)\<close>. Without the flag the result has no
  \<^verbatim>\<open>detailObj\<close>: the model leaves it empty. \<^verbatim>\<open>Math.round\<close> of a sum that is no number
  is \<^verbatim>\<open>NaN\<close>.
\<close>

definition getOriSize :: "env \<Rightarrow> manager \<Rightarrow> string \<Rightarrow> bool \<Rightarrow> detailed outcome \<times> manager" where
  "getOriSize e m t detailedCalculationFlag =
     (if \<not> p_init m then (Falsy, m)
      else if \<not> detailedCalculationFlag then
        (case calCharDimWithCache e m t False 0 of
           (Value sz, m') \<Rightarrow>
             (Value \<lparr>d_width = sz_width sz, d_height = sz_height sz, d_detailObj = Map.empty\<rparr>, m')
         | (Falsy, m') \<Rightarrow> (Falsy, m')
         | (Undefined, m') \<Rightarrow> (Undefined, m')
         | (TypeError, m') \<Rightarrow> (TypeError, m')
         | (NotANumber, m') \<Rightarrow> (NotANumber, m'))
      else
        (case oriSizeLoop e (length t) t (Some (0, 0, Map.empty)) m of
           (Value (cumulativeSize, height, indiSizeStore), m') \<Rightarrow>
             (Value \<lparr>d_width = jsRound cumulativeSize, d_height = height,
                     d_detailObj = indiSizeStore\<rparr>, m')
         | (Falsy, m') \<Rightarrow> (Falsy, m')
         | (Undefined, m') \<Rightarrow> (Undefined, m')
         | (TypeError, m') \<Rightarrow> (TypeError, m')
         | (NotANumber, m') \<Rightarrow> (NotANumber, m')))"

section \<open>Strings and arrays in getSmartText\<close>

text \<open>
  \<^verbatim>\<open>fastTrim\<close>: the leading white space is removed by \<^verbatim>\<open>replace(/^\s\s*/, '')\<close>, the
  trailing white space by the loop that walks down from the last character.
\<close>

definition fastTrim :: "string \<Rightarrow> string" where
  "fastTrim str = rev (dropWhile isSpace (rev (dropWhile isSpace str)))"

text \<open>
  \<^verbatim>\<open>replace(/(\s+)/g, ' ')\<close>: every run of white space becomes one space. \<open>inRun\<close>
  says that the character before was white space.
\<close>

fun collapseFrom :: "bool \<Rightarrow> string \<Rightarrow> string" where
  "collapseFrom inRun [] = []"
| "collapseFrom inRun (c # cs) =
     (if isSpace c
      then (if inRun then collapseFrom True cs else CHR '' '' # collapseFrom True cs)
      else c # collapseFrom False cs)"

definition collapseSpaces :: "string \<Rightarrow> string" where
  "collapseSpaces s = collapseFrom False s"

text \<open>\<^verbatim>\<open>split('')\<close>: the characters of a string, each a string.\<close>

definition splitChars :: "string \<Rightarrow> string list" where
  "splitChars s = map (\<lambda>c. [c]) s"

text \<open>\<^verbatim>\<open>substr(start, length)\<close> and \<^verbatim>\<open>substr(start)\<close> for a start that is not negative.\<close>

definition substr :: "string \<Rightarrow> nat \<Rightarrow> nat \<Rightarrow> string" where
  "substr s start n = take n (drop start s)"

definition substrFrom :: "string \<Rightarrow> nat \<Rightarrow> string" where
  "substrFrom s start = drop start s"

text \<open>\<^verbatim>\<open>lastIndexOf\<close> of a character: its last position, or -1.\<close>

fun lastIndexFrom :: "nat \<Rightarrow> string \<Rightarrow> char \<Rightarrow> int \<Rightarrow> int" where
  "lastIndexFrom i [] c found = found"
| "lastIndexFrom i (x # xs) c found = lastIndexFrom (Suc i) xs c (if x = c then int i else found)"

definition lastIndexOf :: "string \<Rightarrow> char \<Rightarrow> int" where
  "lastIndexOf s c = lastIndexFrom 0 s c (- 1)"

text \<open>
  \<^verbatim>\<open>slice(start, end)\<close> of an array: a negative index counts from the end, both are
  clamped to the array, and an end before the start gives the empty array.
\<close>

definition jsSlice :: "'a list \<Rightarrow> int \<Rightarrow> int \<Rightarrow> 'a list" where
  "jsSlice xs start fin =
     (let n = int (length xs);
          k = (if start < 0 then max (n + start) 0 else min start n);
          f = (if fin < 0 then max (n + fin) 0 else min fin n)
      in take (nat (f - k)) (drop (nat k) xs))"

text \<open>\<^verbatim>\<open>splice(start, 1, x)\<close>: one element at \<open>start\<close> (if there is one) is replaced by \<open>x\<close>.\<close>

definition jsSplice1 :: "'a list \<Rightarrow> int \<Rightarrow> 'a \<Rightarrow> 'a list" where
  "jsSplice1 xs start x =
     (let n = int (length xs);
          k = nat (if start < 0 then max (n + start) 0 else min start n)
      in take k xs @ [x] @ drop (Suc k) xs)"

text \<open>
  \<^verbatim>\<open>arr[i] = v\<close>: in range the element is replaced; at the end it is appended; beyond
  the end the array grows, and the holes read as empty strings in \<^verbatim>\<open>join\<close>.
\<close>

definition arraySet :: "string list \<Rightarrow> nat \<Rightarrow> string \<Rightarrow> string list" where
  "arraySet xs i v =
     (if i < length xs then xs[i := v] else xs @ replicate (i - length xs) [] @ [v])"

text \<open>\<^verbatim>\<open>join('')\<close>.\<close>

definition joinEmpty :: "string list \<Rightarrow> string" where
  "joinEmpty xs = concat xs"

section \<open>The width function\<close>

text \<open>\<^verbatim>\<open>SVG_BBOX_CORRECTION = documentSupport.isWebKit ? 0 : 4.5\<close>.\<close>

definition SVG_BBOX_CORRECTION :: "env \<Rightarrow> rat" where
  "SVG_BBOX_CORRECTION e = (if isWebKit e then 0 else 9 / 2)"

text \<open>
  The function \<^verbatim>\<open>_getWidthFn()\<close> returns, applied to a string or to \<^verbatim>\<open>undefined\<close>
  (\<open>None\<close>; the first character of an empty text). \<^verbatim>\<open>textContent = undefined\<close> clears
  the SVG node, \<^verbatim>\<open>innerHTML = undefined\<close> writes the word. The second function is
  called with a container only.
\<close>

definition getWidthFn :: "env \<Rightarrow> containerObj \<Rightarrow> nat \<Rightarrow> string option \<Rightarrow> rat" where
  "getWidthFn e contObj container str =
     (case co_svgText contObj of
        Some svg \<Rightarrow>
          (let bbox = bboxWidth e svg (case str of None \<Rightarrow> [] | Some t \<Rightarrow> t);
               width = toDouble e (bbox - SVG_BBOX_CORRECTION e)
           in if width < 1 then bbox else width)
      | None \<Rightarrow> offsetWidth e container (case str of None \<Rightarrow> ''undefined'' | Some t \<Rightarrow> t))"

section \<open>getSmartText: the loops over a plain text\<close>

text \<open>
  What the two loops read and do not change: the width function, the per-letter widths
  of \<^verbatim>\<open>getOriSizeImproveObj.detailObj\<close> when there are any,
  \<^verbatim>\<open>slLib.getNearestBreakIndex\<close>, the normalised text (\<^verbatim>\<open>oriTextArr\<close> holds its
  characters), the two width bounds, the height bound, the ellipsis string, the line
  height, whether \<^verbatim>\<open>context\<close> is truthy, the label as the call has filled it, and the
  rounding of the arithmetic.
\<close>

record loopCtx =
  lc_getWidth :: "string option \<Rightarrow> rat"
  lc_detailObj :: "(string \<rightharpoonup> rat) option"
  lc_gnbi :: "string \<Rightarrow> rat \<Rightarrow> nat"
  lc_text :: string
  lc_maxWidthWithEll :: rat
  lc_maxWidth :: rat
  lc_maxHeight :: rat
  lc_ellipsesStr :: string
  lc_lineHeight :: rat
  lc_context :: bool
  lc_label :: smartLabel
  lc_toDouble :: "rat \<Rightarrow> rat"

text \<open>
  The variables the loops change. \<^verbatim>\<open>trimStr\<close> is read for its truthiness before it is
  used, so the empty string stands for \<^verbatim>\<open>null\<close> as well; \<open>ls_cache\<close> is
  \<^verbatim>\<open>this._cache\<close>.
\<close>

record loopState =
  ls_i :: nat
  ls_tempArr :: "string list"
  ls_strWidth :: rat
  ls_strHeight :: rat
  ls_trimStr :: string
  ls_cache :: "string \<rightharpoonup> rat"
  ls_lastIndexBroken :: int
  ls_maxStrWidth :: rat

text \<open>
  The width of one character inside the loops: the entry of \<^verbatim>\<open>this._cache\<close>, else the
  width in \<^verbatim>\<open>detailObj\<close> when it is truthy, else a measurement; a width that was not
  cached is cached.
\<close>

definition charWidth :: "loopCtx \<Rightarrow> (string \<rightharpoonup> rat) \<Rightarrow> string \<Rightarrow> rat \<times> (string \<rightharpoonup> rat)" where
  "charWidth c cache tempChar =
     (case cache tempChar of
        Some w \<Rightarrow> (w, cache)
      | None \<Rightarrow>
          let fromDetail = (case lc_detailObj c of None \<Rightarrow> None | Some d \<Rightarrow> d tempChar);
              minWidth = (case fromDetail of
                            Some w \<Rightarrow> if w \<noteq> 0 then w else lc_getWidth c (Some tempChar)
                          | None \<Rightarrow> lc_getWidth c (Some tempChar))
          in (minWidth, cache(tempChar \<mapsto> minWidth)))"

text \<open>The label a truncating return builds from \<^verbatim>\<open>trimStr\<close>.\<close>

definition truncated :: "loopCtx \<Rightarrow> string \<Rightarrow> rat \<Rightarrow> rat \<Rightarrow> smartLabel" where
  "truncated c trimStr w h =
     (lc_label c)\<lparr>sl_text := fastTrim trimStr @ lc_ellipsesStr c,
                  sl_tooltext := Some (sl_oriText (lc_label c)),
                  sl_width := Some w,
                  sl_height := Some h\<rparr>"

text \<open>
  \<^verbatim>\<open>if (!trimStr) { trimStr = tempArr.slice(0, -1).join(''); }\<close>: the text before the
  character that first went over the budget, kept once it is not empty.
\<close>

definition nextTrimStr :: "string \<Rightarrow> string list \<Rightarrow> string" where
  "nextTrimStr trimStr tempArr =
     (if trimStr = [] then joinEmpty (jsSlice tempArr 0 (- 1)) else trimStr)"

text \<open>
  The character whose width the wrapping loop adds: a space is measured as
  \<^verbatim>\<open>&nbsp;\<close> when there is no canvas context.
\<close>

definition wrapTempChar :: "loopCtx \<Rightarrow> string \<Rightarrow> string" where
  "wrapTempChar c ch = (if ch = '' '' \<and> \<not> lc_context c then ''&nbsp;'' else ch)"

text \<open>
  One turn of the loop for \<^verbatim>\<open>noWrap\<close> (lines 453 to 478): \<open>Inl\<close> is a return from
  inside the loop, \<open>Inr\<close> the state before \<^verbatim>\<open>i += 1\<close>.
\<close>

definition nowrapStep :: "loopCtx \<Rightarrow> loopState \<Rightarrow> (smartLabel \<times> (string \<rightharpoonup> rat)) + loopState" where
  "nowrapStep c s =
     (let tempChar = [lc_text c ! ls_i s];
          tempArr = arraySet (ls_tempArr s) (ls_i s) tempChar;
          (minWidth, cache) = charWidth c (ls_cache s) tempChar;
          strWidth = lc_toDouble c (ls_strWidth s + minWidth)
      in if strWidth > lc_maxWidthWithEll c
         then
           let trimStr = nextTrimStr (ls_trimStr s) tempArr
           in if strWidth > lc_maxWidth c
              then
                Inl (truncated c trimStr
                       (lc_getWidth c (Some (fastTrim trimStr @ lc_ellipsesStr c)))
                       (lc_lineHeight c), cache)
              else Inr (s\<lparr>ls_tempArr := tempArr, ls_strWidth := strWidth,
                          ls_trimStr := trimStr, ls_cache := cache\<rparr>)
         else Inr (s\<lparr>ls_tempArr := tempArr, ls_strWidth := strWidth, ls_cache := cache\<rparr>))"

function nowrapLoop :: "loopCtx \<Rightarrow> loopState \<Rightarrow> smartLabel \<times> (string \<rightharpoonup> rat)" where
  "nowrapLoop c s =
     (if ls_i s < length (lc_text c)
      then (case nowrapStep c s of
              Inl r \<Rightarrow> r
            | Inr s' \<Rightarrow> nowrapLoop c (s'\<lparr>ls_i := Suc (ls_i s)\<rparr>))
      else ((lc_label c)\<lparr>sl_text := joinEmpty (ls_tempArr s),
                          sl_width := Some (ls_strWidth s),
                          sl_height := Some (lc_lineHeight c)\<rparr>, ls_cache s))"
  by pat_completeness auto
termination
  by (relation "measure (\<lambda>(c, s). length (lc_text c) - ls_i s)") auto

declare nowrapLoop.simps [simp del]

text \<open>
  The insertion of a break (lines 513 to 539): the new running width, the array with the
  marker, the new \<^verbatim>\<open>lastIndexBroken\<close> and \<^verbatim>\<open>newCharIndex\<close>.
\<close>

record breakResult =
  br_strWidth :: rat
  br_tempArr :: "string list"
  br_lastIndexBroken :: int
  br_newCharIndex :: nat

definition insertBreak :: "loopCtx \<Rightarrow> nat \<Rightarrow> string list \<Rightarrow> int \<Rightarrow> breakResult" where
  "insertBreak c i tempArr lastIndexBroken =
     (let getWidth = (\<lambda>xs. lc_getWidth c (Some (joinEmpty xs)));
          lastSpace = lastIndexOf (substr (lc_text c) 0 (length tempArr)) CHR '' '';
          lastDash = lastIndexOf (substr (lc_text c) 0 (length tempArr)) CHR ''-''
      in if lastSpace > lastIndexBroken
         then \<lparr>br_strWidth = getWidth (jsSlice tempArr (lastIndexBroken + 1) lastSpace),
               br_tempArr = jsSplice1 tempArr lastSpace ''<br/>'',
               br_lastIndexBroken = lastSpace,
               br_newCharIndex = nat (lastSpace + 1)\<rparr>
         else if lastDash > lastIndexBroken
         then \<lparr>br_strWidth = getWidth (jsSlice tempArr (lastIndexBroken + 1) lastSpace),
               br_tempArr = (if lastDash = int (length tempArr) - 1
                             then jsSplice1 tempArr lastDash ''<br/>-''
                             else jsSplice1 tempArr lastDash ''-<br/>''),
               br_lastIndexBroken = lastDash,
               br_newCharIndex = nat (lastDash + 1)\<rparr>
         else
           let tempArr' = jsSplice1 tempArr (int (length tempArr) - 1)
                            (''<br/>'' @ [lc_text c ! i]);
               lastLineBreak = int (length tempArr') - 2
           in \<lparr>br_strWidth = getWidth (jsSlice tempArr' (lastIndexBroken + 1) (lastLineBreak + 1)),
               br_tempArr = tempArr',
               br_lastIndexBroken = lastLineBreak,
               br_newCharIndex = i\<rparr>)"

text \<open>One turn of the wrapping loop (lines 488 to 565).\<close>

definition wrapStep :: "loopCtx \<Rightarrow> loopState \<Rightarrow> (smartLabel \<times> (string \<rightharpoonup> rat)) + loopState" where
  "wrapStep c s =
     (let ch = [lc_text c ! ls_i s];
          tempArr = arraySet (ls_tempArr s) (ls_i s) ch;
          tempChar = wrapTempChar c ch;
          (minWidth, cache) = charWidth c (ls_cache s) tempChar;
          strWidth = lc_toDouble c (ls_strWidth s + minWidth)
      in if strWidth > lc_maxWidthWithEll c
         then
           let trimStr = nextTrimStr (ls_trimStr s) tempArr
           in if strWidth > lc_maxWidth c
              then
                let b = insertBreak c (ls_i s) tempArr (ls_lastIndexBroken s);
                    strHeight = lc_toDouble c (ls_strHeight s + lc_lineHeight c)
                in if strHeight > lc_maxHeight c
                   then Inl (truncated c trimStr (lc_maxWidth c)
                               (lc_toDouble c (strHeight - lc_lineHeight c)),
                             cache)
                   else
                     let maxStrWidth = max (ls_maxStrWidth s) (br_strWidth b);
                         nearestChar = lc_gnbi c (substrFrom (lc_text c) (br_newCharIndex b))
                                         (lc_maxWidthWithEll c);
                         strWidth' = lc_getWidth c
                            (Some (substr (lc_text c) (br_newCharIndex b)
                                     (if nearestChar = 0 then 1 else nearestChar)));
                         grow = (length (br_tempArr b) < br_newCharIndex b + nearestChar);
                         tempArr' = (if grow
                                     then br_tempArr b @
                                          splitChars (substr (lc_text c) (length (br_tempArr b))
                                            (br_newCharIndex b + nearestChar - length (br_tempArr b)))
                                     else br_tempArr b);
                         i' = (if grow then length tempArr' - 1 else ls_i s)
                     in Inr \<lparr>ls_i = i', ls_tempArr = tempArr', ls_strWidth = strWidth',
                             ls_strHeight = strHeight, ls_trimStr = [], ls_cache = cache,
                             ls_lastIndexBroken = br_lastIndexBroken b,
                             ls_maxStrWidth = maxStrWidth\<rparr>
              else Inr (s\<lparr>ls_tempArr := tempArr, ls_strWidth := strWidth,
                          ls_trimStr := trimStr, ls_cache := cache\<rparr>)
         else Inr (s\<lparr>ls_tempArr := tempArr, ls_strWidth := strWidth, ls_cache := cache\<rparr>))"

lemma length_arraySet: "i < length (arraySet xs i v)"
  by (simp add: arraySet_def)

lemma length_jsSplice1: "length xs \<le> length (jsSplice1 xs k x)"
  by (simp add: jsSplice1_def Let_def)

lemma length_insertBreak: "length tempArr \<le> length (br_tempArr (insertBreak c i tempArr l))"
  by (simp add: insertBreak_def Let_def length_jsSplice1)

lemma wrapStep_i: "wrapStep c s = Inr s' \<Longrightarrow> ls_i s \<le> ls_i s'"
proof -
  assume a: "wrapStep c s = Inr s'"
  let ?t = "arraySet (ls_tempArr s) (ls_i s) [lc_text c ! ls_i s]"
  let ?b = "insertBreak c (ls_i s) ?t (ls_lastIndexBroken s)"
  have "ls_i s < length ?t"
    by (rule length_arraySet)
  also have "length ?t \<le> length (br_tempArr ?b)"
    by (rule length_insertBreak)
  finally have l: "ls_i s < length (br_tempArr ?b)" .
  from a l show ?thesis
    by (auto simp: wrapStep_def Let_def split: prod.splits if_splits)
qed

function wrapLoop :: "loopCtx \<Rightarrow> loopState \<Rightarrow> smartLabel \<times> (string \<rightharpoonup> rat)" where
  "wrapLoop c s =
     (if ls_i s < length (lc_text c)
      then (case wrapStep c s of
              Inl r \<Rightarrow> r
            | Inr s' \<Rightarrow> wrapLoop c (s'\<lparr>ls_i := Suc (ls_i s')\<rparr>))
      else ((lc_label c)\<lparr>sl_text := joinEmpty (ls_tempArr s),
                          sl_width := Some (max (ls_maxStrWidth s) (ls_strWidth s)),
                          sl_height := Some (ls_strHeight s)\<rparr>, ls_cache s))"
  by pat_completeness auto
termination
  by (relation "measure (\<lambda>(c, s). length (lc_text c) - ls_i s)")
     (auto dest!: wrapStep_i)

declare wrapLoop.simps [simp del]

section \<open>getSmartText\<close>

text \<open>The result when nothing fits: no text, and every size 0.\<close>

definition zeroLabel :: "smartLabel \<Rightarrow> smartLabel" where
  "zeroLabel l = l\<lparr>sl_text := [], sl_width := Some 0, sl_oriTextWidth := Some 0,
                   sl_height := Some 0, sl_oriTextHeight := Some 0\<rparr>"

text \<open>
  Lines 423 to 446: the start of \<^verbatim>\<open>tempArr\<close>, the width left for the content and the
  ellipsis that goes with it, from the width of the first character; \<open>None\<close> when the
  first character is wider than \<^verbatim>\<open>maxWidth\<close>. \<open>rnd\<close> is the rounding of the
  arithmetic.
\<close>

definition ellipsisBudget :: "(rat \<Rightarrow> rat) \<Rightarrow> (string \<Rightarrow> rat \<Rightarrow> nat) \<Rightarrow> string \<Rightarrow> rat \<Rightarrow> rat \<Rightarrow> rat
    \<Rightarrow> string \<Rightarrow> rat \<Rightarrow> (string list \<times> rat \<times> string) option" where
  "ellipsisBudget rnd gnbi txt minWidth maxWidth maxWidthWithEll ellipsesStr dotWidth =
     (if maxWidthWithEll > minWidth
      then Some (splitChars (substr txt 0 (gnbi txt maxWidthWithEll)), maxWidthWithEll, ellipsesStr)
      else if minWidth > maxWidth then None
      else if ellipsesStr \<noteq> []
      then (if rnd (maxWidth - rnd (2 * dotWidth)) > minWidth
            then Some ([], rnd (maxWidth - rnd (2 * dotWidth)), ''..'')
            else if rnd (maxWidth - dotWidth) > minWidth
            then Some ([], rnd (maxWidth - dotWidth), ''.'')
            else Some ([], 0, []))
      else Some ([], maxWidthWithEll, ellipsesStr))"

text \<open>
  Lines 410 to 449, the start of the layout of a text without markup: the width of the
  first character is read from \<^verbatim>\<open>this._cache\<close> or measured and cached
  (\<^verbatim>\<open>oriTextArr[0]\<close> of an empty text is \<^verbatim>\<open>undefined\<close>, which the cache files under
  the key of that name; \<open>firstCharWidth\<close>), then the budget is chosen. \<open>Inl\<close> is the cache when nothing
  fits, \<open>Inr\<close> what the loops start from. \<open>txt\<close> is the text after \<^verbatim>\<open>fastTrim\<close> and
  the collapse of white space, \<open>detail\<close> the \<^verbatim>\<open>detailObj\<close> of
  \<^verbatim>\<open>getOriSizeImproveObj\<close> when that was computed.
\<close>

definition firstCharWidth :: "(string option \<Rightarrow> rat) \<Rightarrow> (string \<rightharpoonup> rat) \<Rightarrow> string
    \<Rightarrow> rat \<times> (string \<rightharpoonup> rat)" where
  "firstCharWidth getWidth cache0 txt =
     (let tempChar = (case txt of [] \<Rightarrow> None | ch # rest \<Rightarrow> Some [ch]);
          key = (case tempChar of None \<Rightarrow> ''undefined'' | Some k \<Rightarrow> k)
      in case cache0 key of
           Some w \<Rightarrow> (w, cache0)
         | None \<Rightarrow> (getWidth tempChar, cache0(key \<mapsto> getWidth tempChar)))"

definition loopSetup :: "env \<Rightarrow> manager \<Rightarrow> containerObj \<Rightarrow> nat \<Rightarrow> (string \<rightharpoonup> rat) option \<Rightarrow> string
    \<Rightarrow> rat \<Rightarrow> rat \<Rightarrow> smartLabel \<Rightarrow> (string \<rightharpoonup> rat) \<Rightarrow> (string \<rightharpoonup> rat) + loopCtx \<times> loopState" where
  "loopSetup e m sCont container detail txt maxWidth maxHeight smartLabel cache0 =
     (let getWidth = getWidthFn e sCont container;
          showNoEllipses = (p_showNoEllipses m = Some True);
          ellipsesStr0 = (if showNoEllipses then [] else ''...'');
          maxWidthWithEll0 = (if showNoEllipses then maxWidth
                              else toDouble e (maxWidth - co_ellipsesWidth sCont));
          (minWidth, cache) = firstCharWidth getWidth cache0 txt
      in case ellipsisBudget (toDouble e) (getNearestBreakIndex e) txt minWidth maxWidth
                maxWidthWithEll0 ellipsesStr0 (co_dotWidth sCont) of
           None \<Rightarrow> Inl cache
         | Some (tempArr, maxWidthWithEll, ellipsesStr) \<Rightarrow>
             Inr (\<lparr>lc_getWidth = getWidth, lc_detailObj = detail,
                   lc_gnbi = getNearestBreakIndex e, lc_text = txt,
                   lc_maxWidthWithEll = maxWidthWithEll, lc_maxWidth = maxWidth,
                   lc_maxHeight = maxHeight, lc_ellipsesStr = ellipsesStr,
                   lc_lineHeight = p_lineHeight m, lc_context = (p_context m \<noteq> None),
                   lc_label = smartLabel, lc_toDouble = toDouble e\<rparr>,
                  \<lparr>ls_i = length tempArr, ls_tempArr = tempArr,
                   ls_strWidth = getWidth (Some (joinEmpty tempArr)),
                   ls_strHeight = p_lineHeight m, ls_trimStr = [], ls_cache = cache,
                   ls_lastIndexBroken = - 1, ls_maxStrWidth = 0\<rparr>))"

text \<open>
  Lines 410 to 574: the layout of a text without markup. Reading \<^verbatim>\<open>this._cache\<close>
  throws when the property is absent.
\<close>

definition plainPath :: "env \<Rightarrow> manager \<Rightarrow> containerObj \<Rightarrow> nat \<Rightarrow> (string \<rightharpoonup> rat) option \<Rightarrow> string
    \<Rightarrow> rat \<Rightarrow> rat \<Rightarrow> bool \<Rightarrow> smartLabel \<Rightarrow> smartLabel outcome \<times> manager" where
  "plainPath e m sCont container detail txt maxWidth maxHeight noWrap smartLabel =
     (case p_cache m of
        None \<Rightarrow> (TypeError, m)
      | Some cache0 \<Rightarrow>
          (case loopSetup e m sCont container detail txt maxWidth maxHeight smartLabel cache0 of
             Inl cache \<Rightarrow> (Value (zeroLabel smartLabel), m\<lparr>p_cache := Some cache\<rparr>)
           | Inr (c, s) \<Rightarrow>
               let (r, cache') = (if noWrap then nowrapLoop c s else wrapLoop c s)
               in (Value r, m\<lparr>p_cache := Some cache'\<rparr>)))"

text \<open>
  Lines 405 to 749: the text is trimmed and its white space collapsed, then it is laid
  out without markup, or handed to the markup path.
\<close>

definition layout :: "env \<Rightarrow> manager \<Rightarrow> containerObj \<Rightarrow> nat \<Rightarrow> bool \<Rightarrow> (string \<rightharpoonup> rat) option \<Rightarrow> string
    \<Rightarrow> rat \<Rightarrow> rat \<Rightarrow> bool \<Rightarrow> smartLabel \<Rightarrow> smartLabel outcome \<times> manager" where
  "layout e m sCont container hasHTMLTag detail txt0 maxWidth maxHeight noWrap smartLabel =
     (let txt = collapseSpaces (fastTrim txt0)
      in if \<not> hasHTMLTag
         then plainPath e m sCont container detail txt maxWidth maxHeight noWrap smartLabel
         else (Value (markupPath e txt maxWidth maxHeight noWrap smartLabel), m))"

text \<open>
  Lines 373 to 389: the size of the whole text, per letter for a text without markup
  and in one measurement otherwise, with the \<^verbatim>\<open>detailObj\<close> of the first case.
\<close>

definition measureOri :: "env \<Rightarrow> manager \<Rightarrow> nat \<Rightarrow> bool \<Rightarrow> string
    \<Rightarrow> (rat \<times> rat \<times> (string \<rightharpoonup> rat) option) outcome \<times> manager" where
  "measureOri e m container hasHTMLTag txt =
     (if \<not> hasHTMLTag
      then (case getOriSize e m (ltgtReplace e txt) True of
              (Value d, m') \<Rightarrow> (Value (d_width d, d_height d, Some (d_detailObj d)), m')
            | (Falsy, m') \<Rightarrow> (Falsy, m')
            | (Undefined, m') \<Rightarrow> (Undefined, m')
            | (TypeError, m') \<Rightarrow> (TypeError, m')
            | (NotANumber, m') \<Rightarrow> (NotANumber, m'))
      else (Value (offsetWidth e container txt, offsetHeight e container txt, None), m))"

text \<open>
  The argument as a string (lines 291 to 295), and the height bound the call works with
  (lines 366 to 368): \<^verbatim>\<open>maxHeight *= 1.2\<close> when it is the line height, where
  \<^verbatim>\<open>1.2\<close> is the double next to 6/5.
\<close>

definition textOf :: "jsval \<Rightarrow> string" where
  "textOf textArg = (case textArg of JUndefined \<Rightarrow> [] | JNull \<Rightarrow> [] | v \<Rightarrow> toStringOf v)"

definition effectiveMaxHeight :: "env \<Rightarrow> manager \<Rightarrow> rat \<Rightarrow> rat" where
  "effectiveMaxHeight e m maxHeight =
     (if maxHeight = p_lineHeight m then toDouble e (maxHeight * toDouble e (6 / 5))
      else maxHeight)"

text \<open>The label as the \<^verbatim>\<open>var\<close> statement creates it.\<close>

definition newLabel :: "string \<Rightarrow> rat \<Rightarrow> rat \<Rightarrow> smartLabel" where
  "newLabel txt maxWidth maxHeight =
     \<lparr>sl_text = txt, sl_maxWidth = maxWidth, sl_maxHeight = maxHeight,
      sl_width = None, sl_height = None, sl_oriTextWidth = None,
      sl_oriTextHeight = None, sl_oriText = txt, sl_isTruncated = False,
      sl_tooltext = None, sl_error = None\<rparr>"

text \<open>
  What the first part of the call (lines 287 to 403) hands to the layout when it does
  not return itself: the manager after the measurement of the whole text, the container
  object and the container, whether the text has markup, the \<^verbatim>\<open>detailObj\<close>, and the
  label with the original sizes.
\<close>

record entry =
  en_manager :: manager
  en_sCont :: containerObj
  en_container :: nat
  en_hasHTMLTag :: bool
  en_detail :: "(string \<rightharpoonup> rat) option"
  en_label :: smartLabel

text \<open>
  Lines 287 to 403. The initialisers of the \<^verbatim>\<open>var\<close> statement read
  \<^verbatim>\<open>sCont.ellipsesWidth\<close>, which throws when no container object is bound. \<open>Inl\<close> is
  a return, \<open>Inr\<close> the way on into the layout.
\<close>

definition prelude :: "env \<Rightarrow> manager \<Rightarrow> jsval \<Rightarrow> rat \<Rightarrow> rat
    \<Rightarrow> (smartLabel outcome \<times> manager) + entry" where
  "prelude e m textArg maxWidth maxHeight0 =
     (if \<not> p_init m then Inl (Falsy, m)
      else
        let txt = textOf textArg;
            lineHeight = p_lineHeight m;
            smartLabel = newLabel txt maxWidth maxHeight0
        in case p_containerObj m of
             None \<Rightarrow> Inl (TypeError, m)
           | Some sCont \<Rightarrow>
               let maxHeight = effectiveMaxHeight e m maxHeight0
               in case p_container m of
                    None \<Rightarrow> Inl (Value (smartLabel\<lparr>sl_error := Some ''Body Tag Missing!''\<rparr>), m)
                  | Some container \<Rightarrow>
                      if isBrowserLess e
                      then Inr \<lparr>en_manager = m, en_sCont = sCont, en_container = container,
                                en_hasHTMLTag = False, en_detail = None,
                                en_label = smartLabel\<rparr>
                      else
                        let hasHTMLTag = xmlTagRegEx e txt
                        in case measureOri e m container hasHTMLTag txt of
                             (Value (oriWidth, oriHeight, detail), m1) \<Rightarrow>
                               let l1 = smartLabel\<lparr>sl_oriTextWidth := Some oriWidth,
                                                   sl_oriTextHeight := Some oriHeight\<rparr>
                               in if oriHeight \<le> maxHeight \<and> oriWidth \<le> maxWidth
                                  then Inl (Value (l1\<lparr>sl_width := Some oriWidth,
                                                      sl_height := Some oriHeight\<rparr>), m1)
                                  else if lineHeight > maxHeight
                                  then Inl (Value (zeroLabel l1), m1)
                                  else Inr \<lparr>en_manager = m1, en_sCont = sCont,
                                            en_container = container,
                                            en_hasHTMLTag = hasHTMLTag, en_detail = detail,
                                            en_label = l1\<rparr>
                           | (Falsy, m1) \<Rightarrow> Inl (Falsy, m1)
                           | (Undefined, m1) \<Rightarrow> Inl (Undefined, m1)
                           | (TypeError, m1) \<Rightarrow> Inl (TypeError, m1)
                           | (NotANumber, m1) \<Rightarrow> Inl (NotANumber, m1))"

text \<open>\<^verbatim>\<open>getSmartText(text, maxWidth, maxHeight, noWrap)\<close>. The bounds are numbers.\<close>

definition getSmartText :: "env \<Rightarrow> manager \<Rightarrow> jsval \<Rightarrow> rat \<Rightarrow> rat \<Rightarrow> bool
    \<Rightarrow> smartLabel outcome \<times> manager" where
  "getSmartText e m textArg maxWidth maxHeight0 noWrap =
     (case prelude e m textArg maxWidth maxHeight0 of
        Inl r \<Rightarrow> r
      | Inr en \<Rightarrow>
          layout e (en_manager en) (en_sCont en) (en_container en) (en_hasHTMLTag en)
            (en_detail en) (textOf textArg) maxWidth (effectiveMaxHeight e m maxHeight0) noWrap
            (en_label en))"

section \<open>setStyle, useEllipsesOnOverflow, dispose\<close>

text \<open>
  \<^verbatim>\<open>setStyle(style)\<close>; \<open>Value ()\<close> is \<^verbatim>\<open>return this\<close>, the manager being the second
  component. \<^verbatim>\<open>===\<close> compares the identities of the style objects (both sides may be
  \<^verbatim>\<open>undefined\<close>). With no style at all \<^verbatim>\<open>slLib.setLineHeight\<close> and
  \<^verbatim>\<open>this._containerManager.get\<close> have nothing to work on: the only state without a
  \<^verbatim>\<open>style\<close> is that after \<^verbatim>\<open>dispose\<close>, which has no container manager either.
\<close>

definition setStyle :: "env \<Rightarrow> manager \<Rightarrow> style option \<Rightarrow> unit outcome \<times> manager" where
  "setStyle e m styleArg =
     (if \<not> p_init m then (Value (), m)
      else if map_option oid styleArg = map_option oid (m_style m) \<and> \<not> p_styleNotSet m
      then (Undefined, m)
      else
        (case (case styleArg of None \<Rightarrow> m_style m | Some st \<Rightarrow> Some st) of
           None \<Rightarrow> (TypeError, m)
         | Some given \<Rightarrow>
             let st = setLineHeight e given;
                 m1 = m\<lparr>m_style := Some st\<rparr>
             in case p_containerManager m1 of
                  None \<Rightarrow> (TypeError, m1)
                | Some cm \<Rightarrow>
                    (case cmGet e st of
                       Some sCont \<Rightarrow>
                         (Value (), m1\<lparr>p_containerObj := Some sCont,
                                        p_container := co_node sCont,
                                        p_context := co_context sCont,
                                        p_cache := Some (co_charCache sCont),
                                        p_lineHeight := co_lineHeight sCont,
                                        p_styleNotSet := False\<rparr>)
                     | None \<Rightarrow>
                         (Value (), m1\<lparr>p_containerObj := None, p_styleNotSet := True\<rparr>))))"

text \<open>\<^verbatim>\<open>useEllipsesOnOverflow(useEllipses)\<close>, which returns \<^verbatim>\<open>this\<close> on both paths.\<close>

definition useEllipsesOnOverflow :: "manager \<Rightarrow> bool \<Rightarrow> manager" where
  "useEllipsesOnOverflow m useEllipses =
     (if \<not> p_init m then m else m\<lparr>p_showNoEllipses := Some (\<not> useEllipses)\<rparr>)"

text \<open>
  \<^verbatim>\<open>dispose()\<close>, which returns \<^verbatim>\<open>this\<close> on both paths: the container manager is told
  to dispose (an effect outside the manager), and nine properties are deleted.
\<close>

definition dispose :: "manager \<Rightarrow> manager" where
  "dispose m =
     (if \<not> p_init m then m
      else m\<lparr>p_container := None, p_context := None, p_cache := None,
             p_containerManager := None, p_containerObj := None, m_id := None,
             m_style := None, m_parentContainer := None, p_showNoEllipses := None\<rparr>)"

section \<open>A measuring surface for the examples\<close>

text \<open>
  The runtime of the examples. \<open>nearestDouble\<close> rounds to 53 significant bits, a tie to
  the even neighbour (the range of the exponent is not bounded); a whole number up to
  \<open>2 ^ 53\<close> is a double as it is. \<open>bitLength\<close> is the number of binary digits.
\<close>

function bitLength :: "int \<Rightarrow> int" where
  "bitLength n = (if n \<le> 0 then 0 else 1 + bitLength (n div 2))"
  by pat_completeness auto
termination
  by (relation "measure nat") auto

declare bitLength.simps [simp del]

definition pow2 :: "int \<Rightarrow> rat" where
  "pow2 k = (if 0 \<le> k then 2 ^ nat k else 1 / 2 ^ nat (- k))"

definition nearestDouble :: "rat \<Rightarrow> rat" where
  "nearestDouble x =
     (if x = of_int \<lfloor>x\<rfloor> \<and> \<bar>x\<bar> \<le> 2 ^ 53 then x
      else
        let a = \<bar>x\<bar>;
            k = bitLength (fst (quotient_of a)) - bitLength (snd (quotient_of a));
            ex = (if a < pow2 k then k - 1 else k);
            u = pow2 (ex - 52);
            n = a / u;
            f = \<lfloor>n\<rfloor>;
            r = (if n - of_int f < 1 / 2 then f
                 else if 1 / 2 < n - of_int f then f + 1
                 else if even f then f else f + 1)
        in sgn x * of_int r * u)"

text \<open>
  The decimal string of a number, as the runtime prints a double that is at least a
  millionth and has at most 21 digits before the point: the shortest decimal, of at
  most 17 significant digits, that reads back as the same double. \<open>roundSig k x\<close> is
  \<open>x\<close> rounded to \<open>k\<close> significant digits.
\<close>

definition digitChar :: "int \<Rightarrow> char" where
  "digitChar d = ''0123456789'' ! nat d"

function decimalDigits :: "int \<Rightarrow> string" where
  "decimalDigits n =
     (if n < 10 then [digitChar n] else decimalDigits (n div 10) @ [digitChar (n mod 10)])"
  by pat_completeness auto
termination
  by (relation "measure nat") auto

declare decimalDigits.simps [simp del]

fun fractionDigits :: "nat \<Rightarrow> rat \<Rightarrow> string" where
  "fractionDigits 0 f = []"
| "fractionDigits (Suc k) f =
     (if f = 0 then []
      else digitChar \<lfloor>10 * f\<rfloor> # fractionDigits k (10 * f - of_int \<lfloor>10 * f\<rfloor>))"

fun leadingZeros :: "nat \<Rightarrow> rat \<Rightarrow> int" where
  "leadingZeros 0 x = 0"
| "leadingZeros (Suc k) x = (if 1 \<le> 10 * x then 0 else 1 + leadingZeros k (10 * x))"

definition pow10 :: "int \<Rightarrow> rat" where
  "pow10 k = (if 0 \<le> k then 10 ^ nat k else 1 / 10 ^ nat (- k))"

definition roundSig :: "int \<Rightarrow> rat \<Rightarrow> rat" where
  "roundSig k x =
     (let p = (if 1 \<le> x then int (length (decimalDigits \<lfloor>x\<rfloor>)) else - leadingZeros 30 x)
      in of_int \<lfloor>x * pow10 (k - p) + 1 / 2\<rfloor> / pow10 (k - p))"

definition printDecimal :: "rat \<Rightarrow> string" where
  "printDecimal x =
     decimalDigits \<lfloor>x\<rfloor>
     @ (if x = of_int \<lfloor>x\<rfloor> then [] else ''.'' @ fractionDigits 40 (x - of_int \<lfloor>x\<rfloor>))"

definition printNum :: "rat \<Rightarrow> string" where
  "printNum x =
     (let a = \<bar>x\<bar>;
          shown = (case find (\<lambda>k. nearestDouble (roundSig k a) = a) (map int [1..<18]) of
                     Some k \<Rightarrow> roundSig k a
                   | None \<Rightarrow> a)
      in if x = 0 then ''0''
         else (if x < 0 then ''-'' else []) @ printDecimal shown)"

text \<open>
  \<^verbatim>\<open>parseFloat\<close> of a string in decimal notation without an exponent: white space is
  skipped, then the longest prefix of the form sign, digits, point, digits is read, and
  there is no number when that prefix has no digit.
\<close>

definition isDigit :: "char \<Rightarrow> bool" where
  "isDigit c = (c \<in> set ''0123456789'')"

definition digitsValue :: "string \<Rightarrow> int" where
  "digitsValue ds = foldl (\<lambda>v c. 10 * v + (of_char c - 48)) 0 ds"

definition readNum :: "string \<Rightarrow> rat option" where
  "readNum str =
     (let s0 = dropWhile isSpace str;
          negative = (s0 \<noteq> [] \<and> hd s0 = CHR ''-'');
          s1 = (if s0 \<noteq> [] \<and> (hd s0 = CHR ''-'' \<or> hd s0 = CHR ''+'') then tl s0 else s0);
          whole = takeWhile isDigit s1;
          s2 = dropWhile isDigit s1;
          part = (if s2 \<noteq> [] \<and> hd s2 = CHR ''.'' then takeWhile isDigit (tl s2) else []);
          v = of_int (digitsValue whole) + of_int (digitsValue part) / 10 ^ length part
      in if whole = [] \<and> part = [] then None
         else Some (nearestDouble (if negative then - v else v)))"

text \<open>
  The names an object inherits, with the string a browser shows for the inherited
  function (for \<^verbatim>\<open>__proto__\<close>, the prototype object).
\<close>

definition nativeFunction :: "string \<Rightarrow> string" where
  "nativeFunction name = ''function '' @ name @ ''() { [native code] }''"

definition objectPrototype :: "string \<rightharpoonup> string" where
  "objectPrototype name =
     (if name = ''constructor'' then Some (nativeFunction ''Object'')
      else if name = ''__proto__'' then Some ''[object Object]''
      else if name \<in> set [''hasOwnProperty'', ''isPrototypeOf'', ''propertyIsEnumerable'',
                          ''toLocaleString'', ''toString'', ''valueOf'',
                          ''__defineGetter__'', ''__defineSetter__'',
                          ''__lookupGetter__'', ''__lookupSetter__'']
      then Some (nativeFunction name)
      else None)"

fun glyphs :: "string \<Rightarrow> nat" where
  "glyphs (a # b # c # d # e # f # rest) =
     (if [a, b, c, d, e, f] = ''&nbsp;'' then Suc (glyphs rest)
      else Suc (glyphs (b # c # d # e # f # rest)))"
| "glyphs (x # xs) = Suc (glyphs xs)"
| "glyphs [] = 0"

text \<open>
  A surface on which every glyph is 7 wide and every line 14 high. \<open>glyphs\<close> counts what
  a string shows when it is rendered as HTML: the entity \<^verbatim>\<open>&nbsp;\<close> is one glyph. The
  nearest break index is the number of glyphs that fit in the width. The style has a
  font size only; the ellipsis is three dots wide.
\<close>

definition surface :: env where
  "surface = \<lparr>offsetWidth = (\<lambda>n s. of_nat (7 * glyphs s)),
               offsetHeight = (\<lambda>n s. 14),
               bboxWidth = (\<lambda>n s. of_nat (7 * glyphs s)),
               isWebKit = True,
               isBrowserLess = False,
               xmlTagRegEx = (\<lambda>s. False),
               ltgtReplace = (\<lambda>s. s),
               getNearestBreakIndex = (\<lambda>s w. min (length s) (nat \<lfloor>w / 7\<rfloor>)),
               markupPath = (\<lambda>t w h n l. l),
               cmGet = (\<lambda>s. None),
               setLineHeight = (\<lambda>s. s),
               toDouble = nearestDouble,
               numToString = printNum,
               parseFloat = readNum,
               inherited = objectPrototype\<rparr>"

definition style12 :: style where
  "style12 = \<lparr>oid = 0, fontSize = ''12px'', fontFamily = [], fontWeight = [], fontStyle = []\<rparr>"

definition contObj12 :: containerObj where
  "contObj12 = \<lparr>co_node = Some 0, co_context = None, co_svgText = None,
                 co_charCache = Map.empty, co_lineHeight = 14, co_ellipsesWidth = 21,
                 co_dotWidth = 7\<rparr>"

text \<open>
  A manager as the constructor and \<^verbatim>\<open>setStyle\<close> leave it, with ellipses switched on,
  the style above bound and the given cache limit.
\<close>

definition manager12 :: "rat \<Rightarrow> manager" where
  "manager12 k = \<lparr>p_init = True, m_id = Some ''label'', m_parentContainer = Some 1,
                   p_containerManager = Some 2, p_showNoEllipses = Some False,
                   m_style = Some style12, m_options = \<lparr>maxCacheLimit = k\<rparr>,
                   p_containerObj = Some contObj12, p_container = Some 0, p_context = None,
                   p_cache = Some Map.empty, p_lineHeight = 14, p_styleNotSet = False,
                   p_advancedCache = None, p_advancedCacheKey = None\<rparr>"

text \<open>
  The manager with cache limit 2 after \<^verbatim>\<open>getOriSize('a', true)\<close> and then
  \<^verbatim>\<open>getOriSize('ainit')\<close>.
\<close>

definition afterCollision :: manager where
  "afterCollision =
     snd (getOriSize surface (snd (getOriSize surface (manager12 2) ''a'' True)) ''ainit'' False)"

text \<open>
  What the wrapping loop reads when \<^verbatim>\<open>getSmartText('ab-cdef', 45, 100, false)\<close> runs on
  the surface above: the ellipsis leaves 24 of the 45 for the content.
\<close>

definition wrapCtx :: loopCtx where
  "wrapCtx = \<lparr>lc_getWidth = getWidthFn surface contObj12 0, lc_detailObj = None,
               lc_gnbi = getNearestBreakIndex surface, lc_text = ''ab-cdef'',
               lc_maxWidthWithEll = 24, lc_maxWidth = 45, lc_maxHeight = 100,
               lc_ellipsesStr = ''...'', lc_lineHeight = 14, lc_context = False,
               lc_label = (newLabel ''ab-cdef'' 45 100)\<lparr>sl_oriTextWidth := Some 49,
                                                         sl_oriTextHeight := Some 14\<rparr>,
               lc_toDouble = toDouble surface\<rparr>"

text \<open>A manager whose construction returned early: \<^verbatim>\<open>_init\<close> was never set.\<close>

definition uninitialised :: manager where
  "uninitialised = (manager12 500)\<lparr>p_init := False\<rparr>"





text \<open>
  The manager after \<^verbatim>\<open>getOriSize('ainit')\<close> and then
  \<^verbatim>\<open>_calCharDimWithCache('a', true, 1)\<close>, which finds the plain entry of \<^verbatim>\<open>ainit\<close>
  under the correction key of \<^verbatim>\<open>a\<close>.
\<close>

definition afterString :: manager where
  "afterString =
     snd (calCharDimWithCache surface
            (snd (getOriSize surface (manager12 500) ''ainit'' False)) ''a'' True 1)"

section \<open>The sizes getOriSize adds up\<close>


section \<open>Invariants of the advanced cache\<close>

text \<open>
  The key list is no longer than the limit, and every key of the cache is in the key
  list.
\<close>

definition cacheInv :: "rat \<Rightarrow> (string \<rightharpoonup> cval) \<times> string list \<Rightarrow> bool" where
  "cacheInv limit ck = (of_nat (length (snd ck)) \<le> limit \<and> dom (fst ck) \<subseteq> set (snd ck))"

section \<open>Properties\<close>

subsection \<open>textToLines\<close>



subsection \<open>The truncation flag\<close>

text \<open>
  The loops and the first part of the call never write \<^verbatim>\<open>isTruncated\<close>: a label that
  comes back from the layout of a text without markup carries the \<^verbatim>\<open>false\<close> the
  \<^verbatim>\<open>var\<close> statement gave it, whatever was done to the text.
\<close>

lemma truncated_isTruncated: "sl_isTruncated (truncated c t w h) = sl_isTruncated (lc_label c)"
  by (simp add: truncated_def)

lemma nowrapStep_isTruncated:
  "nowrapStep c s = Inl r \<Longrightarrow> sl_isTruncated (fst r) = sl_isTruncated (lc_label c)"
  by (auto simp: nowrapStep_def Let_def truncated_def split: prod.splits if_splits)

lemma nowrapLoop_isTruncated:
  "sl_isTruncated (fst (nowrapLoop c s)) = sl_isTruncated (lc_label c)"
proof (induction c s rule: nowrapLoop.induct)
  case (1 c s)
  show ?case
  proof (cases "ls_i s < length (lc_text c)")
    case False
    then show ?thesis by (simp add: nowrapLoop.simps[of c s])
  next
    case True
    show ?thesis
    proof (cases "nowrapStep c s")
      case (Inl r)
      with True show ?thesis
        by (simp add: nowrapLoop.simps[of c s] nowrapStep_isTruncated)
    next
      case (Inr s')
      with True "1.IH"[OF True Inr] show ?thesis
        by (simp add: nowrapLoop.simps[of c s])
    qed
  qed
qed

lemma wrapStep_isTruncated:
  "wrapStep c s = Inl r \<Longrightarrow> sl_isTruncated (fst r) = sl_isTruncated (lc_label c)"
  by (auto simp: wrapStep_def Let_def truncated_def split: prod.splits if_splits)

lemma wrapLoop_isTruncated:
  "sl_isTruncated (fst (wrapLoop c s)) = sl_isTruncated (lc_label c)"
proof (induction c s rule: wrapLoop.induct)
  case (1 c s)
  show ?case
  proof (cases "ls_i s < length (lc_text c)")
    case False
    then show ?thesis by (simp add: wrapLoop.simps[of c s])
  next
    case True
    show ?thesis
    proof (cases "wrapStep c s")
      case (Inl r)
      with True show ?thesis
        by (simp add: wrapLoop.simps[of c s] wrapStep_isTruncated)
    next
      case (Inr s')
      with True "1.IH"[OF True Inr] show ?thesis
        by (simp add: wrapLoop.simps[of c s])
    qed
  qed
qed

lemma plainPath_isTruncated:
  assumes "plainPath e m sCont container detail txt maxWidth maxHeight noWrap l = (Value r, m')"
  shows "sl_isTruncated r = sl_isTruncated l"
proof (cases "p_cache m")
  case None
  with assms show ?thesis by (simp add: plainPath_def)
next
  case (Some cache0)
  show ?thesis
  proof (cases "loopSetup e m sCont container detail txt maxWidth maxHeight l cache0")
    case (Inl cache)
    with assms Some show ?thesis
      by (auto simp: plainPath_def zeroLabel_def)
  next
    case (Inr cs)
    obtain c s where cs: "cs = (c, s)" by (cases cs)
    have l: "lc_label c = l"
      using Inr cs
      by (auto simp: loopSetup_def Let_def split: prod.splits option.splits)
    have r: "r = fst (if noWrap then nowrapLoop c s else wrapLoop c s)"
      using assms Some Inr cs
      by (auto simp: plainPath_def Let_def split: prod.splits)
    show ?thesis
      unfolding r using l
      by (simp add: nowrapLoop_isTruncated wrapLoop_isTruncated)
  qed
qed

lemma prelude_isTruncated:
  "prelude e m textArg maxWidth maxHeight = Inl (Value r, m') \<Longrightarrow> \<not> sl_isTruncated r"
  by (auto simp: prelude_def Let_def newLabel_def zeroLabel_def
      split: if_splits option.splits prod.splits outcome.splits)

lemma prelude_entry:
  "prelude e m textArg maxWidth maxHeight = Inr en \<Longrightarrow>
     \<not> sl_isTruncated (en_label en)
     \<and> (isBrowserLess e \<or> \<not> xmlTagRegEx e (textOf textArg) \<longrightarrow> \<not> en_hasHTMLTag en)"
  by (auto simp: prelude_def Let_def newLabel_def zeroLabel_def
      split: if_splits option.splits prod.splits outcome.splits)

lemma getSmartText_plain_isTruncated:
  assumes "getSmartText e m textArg maxWidth maxHeight noWrap = (Value r, m')"
      and "isBrowserLess e \<or> \<not> xmlTagRegEx e (textOf textArg)"
  shows "\<not> sl_isTruncated r"
proof (cases "prelude e m textArg maxWidth maxHeight")
  case (Inl a)
  with assms(1) show ?thesis
    by (auto simp: getSmartText_def dest: prelude_isTruncated)
next
  case (Inr en)
  from prelude_entry[OF Inr] assms(2)
  have t: "\<not> sl_isTruncated (en_label en)" and h: "\<not> en_hasHTMLTag en"
    by auto
  from assms(1) Inr h
  have "plainPath e (en_manager en) (en_sCont en) (en_container en) (en_detail en)
          (collapseSpaces (fastTrim (textOf textArg))) maxWidth
          (effectiveMaxHeight e m maxHeight) noWrap (en_label en) = (Value r, m')"
    by (simp add: getSmartText_def layout_def)
  from plainPath_isTruncated[OF this] t show ?thesis
    by simp
qed

text \<open>
  C1 asks that \<^verbatim>\<open>isTruncated\<close> be true exactly when the returned text differs from the
  original, and in particular when a text without markup is cut and given an ellipsis
  and a tooltip. The code does not do that. On the example surface
  \<^verbatim>\<open>getSmartText('Hello World', 60, 100, true)\<close> returns the text \<^verbatim>\<open>Hello...\<close> with the
  original text as tooltip, and \<^verbatim>\<open>isTruncated\<close> is false.
\<close>

theorem getSmartText_truncates_without_flag:
  "fst (getSmartText surface (manager12 500) (JString ''Hello World'') 60 100 True) =
     Value \<lparr>sl_text = ''Hello...'', sl_maxWidth = 60, sl_maxHeight = 100,
            sl_width = Some 56, sl_height = Some 14, sl_oriTextWidth = Some 77,
            sl_oriTextHeight = Some 14, sl_oriText = ''Hello World'',
            sl_isTruncated = False, sl_tooltext = Some ''Hello World'', sl_error = None\<rparr>"
  by code_simp

subsection \<open>The advanced cache\<close>

text \<open>
  With a limit that is not negative, every call of \<^verbatim>\<open>_calCharDimWithCache\<close> keeps the
  key list within the limit and every key of the cache in the key list; so the cache
  never holds more entries than the limit.
\<close>

lemma cachePut_inv:
  assumes "0 \<le> limit" and "cacheInv limit ck"
  shows "cacheInv limit (cachePut limit k v ck)"
proof -
  obtain cache keys where ck: "ck = (cache, keys)" by (cases ck)
  have len: "of_nat (length keys) \<le> limit" and sub: "dom cache \<subseteq> set keys"
    using assms(2) ck by (simp_all add: cacheInv_def)
  show ?thesis
  proof (cases "of_nat (length (keys @ [k])) > limit")
    case False
    with sub show ?thesis
      by (auto simp: cachePut_def cacheInv_def ck Let_def)
  next
    case True
    have l: "of_nat (length (tl (keys @ [k]))) \<le> limit"
      using len by simp
    have "set (keys @ [k]) - {hd (keys @ [k])} \<subseteq> set (tl (keys @ [k]))"
      by (cases "keys @ [k]") auto
    with sub have d: "dom ((cache(k \<mapsto> v))(hd (keys @ [k]) := None)) \<subseteq> set (tl (keys @ [k]))"
      by auto
    from True l d show ?thesis
      by (simp add: cachePut_def cacheInv_def ck Let_def)
  qed
qed

lemma adv_storeCache:
  "advCache (storeCache m ck) = fst ck" "advKeys (storeCache m ck) = snd ck"
  "m_options (storeCache m ck) = m_options m"
  by (simp_all add: advCache_def advKeys_def storeCache_def)

lemma measureSize_inv:
  assumes "0 \<le> maxCacheLimit (m_options m)"
      and "cacheInv (maxCacheLimit (m_options m)) ck"
  shows "cacheInv (maxCacheLimit (m_options m))
           (advCache (snd (measureSize e m cName t a ck)),
            advKeys (snd (measureSize e m cName t a ck)))
         \<and> m_options (snd (measureSize e m cName t a ck)) = m_options m"
  using assms(2) cachePut_inv[OF assms]
  by (simp add: measureSize_def Let_def adv_storeCache
      split: option.splits sum.splits)

lemma plainLookup_inv:
  assumes "0 \<le> maxCacheLimit (m_options m)"
      and "cacheInv (maxCacheLimit (m_options m)) ck"
  shows "cacheInv (maxCacheLimit (m_options m))
           (advCache (snd (plainLookup e m cName t a ck)),
            advKeys (snd (plainLookup e m cName t a ck)))
         \<and> m_options (snd (plainLookup e m cName t a ck)) = m_options m"
  using assms(2) measureSize_inv[OF assms]
  by (simp add: plainLookup_def adv_storeCache
      split: option.splits cval.splits list.splits prod.splits)

lemma calCharDimWithCache_inv:
  assumes "0 \<le> maxCacheLimit (m_options m)"
      and "cacheInv (maxCacheLimit (m_options m)) (advCache m, advKeys m)"
  shows "cacheInv (maxCacheLimit (m_options m))
           (advCache (snd (calCharDimWithCache e m t cd len)),
            advKeys (snd (calCharDimWithCache e m t cd len)))
         \<and> m_options (snd (calCharDimWithCache e m t cd len)) = m_options m"
  using assms(2) plainLookup_inv[OF assms] plainLookup_inv[OF assms(1) cachePut_inv[OF assms]]
  by (simp add: calCharDimWithCache_def Let_def adv_storeCache
      split: option.splits cval.splits)

lemma cacheInv_card:
  assumes "cacheInv limit (cache, keys)"
  shows "of_nat (card (dom cache)) \<le> limit"
proof -
  have "card (dom cache) \<le> card (set keys)"
    using assms by (auto simp: cacheInv_def intro: card_mono)
  also have "\<dots> \<le> length keys"
    by (rule card_length)
  finally have "(of_nat (card (dom cache)) :: rat) \<le> of_nat (length keys)"
    by simp
  with assms show ?thesis
    by (simp add: cacheInv_def)
qed

text \<open>
  C3 asks, beyond the bound, that the keys of the list and the keys of the cache be the
  same set after every call. The code does not keep that. The correction of \<^verbatim>\<open>a\<close> in a
  text of length 1 is 0 and is stored under \<^verbatim>\<open>ainit12px\<close>; the plain key of the text
  \<^verbatim>\<open>ainit\<close> is the same string, the 0 found there is falsy, the text is measured and
  the key pushed a second time; the list is then longer than the limit 2, its first key
  (the first \<^verbatim>\<open>ainit12px\<close>) is shifted out and the entry deleted, while the second copy
  of the key stays in the list.
\<close>

theorem advancedCache_out_of_sync:
  "advKeys afterCollision = [''a12px'', ''ainit12px'']
   \<and> advCache afterCollision ''a12px'' = Some (CDim 7 14)
   \<and> advCache afterCollision ''ainit12px'' = None
   \<and> set (advKeys afterCollision) \<noteq> dom (advCache afterCollision)"
proof -
  have k: "advKeys afterCollision = [''a12px'', ''ainit12px'']"
    by code_simp
  have a: "advCache afterCollision ''a12px'' = Some (CDim 7 14)"
    by code_simp
  have c: "advCache afterCollision ''ainit12px'' = None"
    by code_simp
  have "''ainit12px'' \<in> set (advKeys afterCollision)"
    unfolding k by simp
  moreover have "''ainit12px'' \<notin> dom (advCache afterCollision)"
    using c by (simp add: dom_def)
  ultimately have "set (advKeys afterCollision) \<noteq> dom (advCache afterCollision)"
    by blast
  with k a c show ?thesis
    by simp
qed

subsection \<open>Breaks in wrap mode\<close>

text \<open>
  C5 asks that after every break the running width be the width of the text from the
  last break point to the new one. At a hyphen the code measures
  \<^verbatim>\<open>tempArr.slice(lastIndexBroken + 1, lastSpace)\<close>, with the position of the last
  space where the position of the hyphen belongs. For \<^verbatim>\<open>ab-cdef\<close> within 45 the break
  goes after the hyphen when \<^verbatim>\<open>f\<close> overflows, the line before it is \<^verbatim>\<open>ab-\<close>, 21
  wide, and the running width is set to 42, the width of \<^verbatim>\<open>ab-cde\<close> (no space:
  \<^verbatim>\<open>slice(0, -1)\<close>); the call reports 42 as the width of a text whose lines are 21 and
  28 wide.
\<close>

theorem hyphen_break_measures_wrong_span:
  "insertBreak wrapCtx 6 (splitChars ''ab-cdef'') (- 1) =
      \<lparr>br_strWidth = 42, br_tempArr = [''a'', ''b'', ''-<br/>'', ''c'', ''d'', ''e'', ''f''],
       br_lastIndexBroken = 2, br_newCharIndex = 3\<rparr>
   \<and> lc_getWidth wrapCtx (Some ''ab-'') = 21
   \<and> lc_getWidth wrapCtx (Some ''cdef'') = 28
   \<and> fst (getSmartText surface (manager12 500) (JString ''ab-cdef'') 45 100 False) =
       Value \<lparr>sl_text = ''ab-<br/>cdef'', sl_maxWidth = 45, sl_maxHeight = 100,
              sl_width = Some 42, sl_height = Some 28, sl_oriTextWidth = Some 49,
              sl_oriTextHeight = Some 14, sl_oriText = ''ab-cdef'',
              sl_isTruncated = False, sl_tooltext = None, sl_error = None\<rparr>"
  by code_simp

subsection \<open>dispose\<close>

text \<open>
  C2 as stated fails: \<^verbatim>\<open>dispose\<close> does not touch \<^verbatim>\<open>_init\<close>. After it the flag of the
  example manager is still true, \<^verbatim>\<open>useEllipsesOnOverflow(false)\<close> still sets
  \<^verbatim>\<open>_showNoEllipses\<close>, and \<^verbatim>\<open>getSmartText\<close> does not return \<^verbatim>\<open>false\<close>: it goes past
  the guard and throws on the deleted container object.
\<close>

theorem dispose_keeps_init:
  "p_init (dispose (manager12 500))
   \<and> useEllipsesOnOverflow (dispose (manager12 500)) False \<noteq> dispose (manager12 500)
   \<and> p_showNoEllipses (useEllipsesOnOverflow (dispose (manager12 500)) False) = Some True
   \<and> fst (getSmartText surface (dispose (manager12 500)) (JString ''Hello'') 60 100 False) = TypeError
   \<and> fst (getSmartText surface (dispose (manager12 500)) (JString ''Hello'') 60 100 False) \<noteq> Falsy"
  by (simp add: dispose_def manager12_def useEllipsesOnOverflow_def getSmartText_def prelude_def)

text \<open>
  C2, amended. \<^verbatim>\<open>dispose\<close> on an initialised manager deletes the container, the
  context, the character cache, the container manager, the container object, the id,
  the style, the parent container and the ellipsis flag, and leaves \<^verbatim>\<open>_init\<close>, the
  advanced cache, the line height and the options as they were. The guard is taken by
  a manager whose \<^verbatim>\<open>_init\<close> is not set: then \<^verbatim>\<open>getSmartText\<close>, \<^verbatim>\<open>getOriSize\<close> and
  \<^verbatim>\<open>_calCharDimWithCache\<close> return \<^verbatim>\<open>false\<close>, and \<^verbatim>\<open>setStyle\<close>,
  \<^verbatim>\<open>useEllipsesOnOverflow\<close> and \<^verbatim>\<open>dispose\<close> return the manager as it is.
\<close>

theorem dispose_releases_guard_on_init:
  "(p_init m \<longrightarrow>
      dispose m = m\<lparr>p_container := None, p_context := None, p_cache := None,
                     p_containerManager := None, p_containerObj := None, m_id := None,
                     m_style := None, m_parentContainer := None, p_showNoEllipses := None\<rparr>
      \<and> p_init (dispose m)
      \<and> p_advancedCache (dispose m) = p_advancedCache m
      \<and> p_advancedCacheKey (dispose m) = p_advancedCacheKey m
      \<and> p_lineHeight (dispose m) = p_lineHeight m
      \<and> m_options (dispose m) = m_options m)
   \<and> (\<not> p_init m \<longrightarrow>
      getSmartText e m textArg maxWidth maxHeight noWrap = (Falsy, m)
      \<and> getOriSize e m txt detailedCalculationFlag = (Falsy, m)
      \<and> calCharDimWithCache e m txt calculateDifference len = (Falsy, m)
      \<and> setStyle e m styleArg = (Value (), m)
      \<and> useEllipsesOnOverflow m useEllipses = m
      \<and> dispose m = m)"
  by (simp add: dispose_def getSmartText_def prelude_def getOriSize_def
      calCharDimWithCache_def setStyle_def useEllipsesOnOverflow_def)

theorem dispose_releases_guard_on_init_witness:
  "p_init (manager12 500)
   \<and> p_init (dispose (manager12 500))
   \<and> p_containerObj (dispose (manager12 500)) = None
   \<and> \<not> p_init uninitialised
   \<and> getSmartText surface uninitialised (JString ''Hello'') 60 100 False = (Falsy, uninitialised)
   \<and> useEllipsesOnOverflow uninitialised False = uninitialised"
proof -
  have i: "p_init (manager12 500)"
    by (simp add: manager12_def)
  have u: "\<not> p_init uninitialised"
    by (simp add: uninitialised_def)
  note D = dispose_releases_guard_on_init[of "manager12 500", THEN conjunct1, THEN mp, OF i]
  note G = dispose_releases_guard_on_init[where m = uninitialised and e = surface
             and textArg = "JString ''Hello''" and maxWidth = 60 and maxHeight = 100
             and noWrap = False and useEllipses = False,
             THEN conjunct2, THEN mp, OF u]
  have c: "p_containerObj (dispose (manager12 500)) = None"
    by (subst D[THEN conjunct1]) simp
  from i u D[THEN conjunct2, THEN conjunct1] c G[THEN conjunct1]
       G[THEN conjunct2, THEN conjunct2, THEN conjunct2, THEN conjunct2, THEN conjunct1]
  show ?thesis
    by (simp only: simp_thms)
qed

subsection \<open>The repetition correction\<close>






text \<open>
  Two corners of the look-up, on the example surface. The text \<^verbatim>\<open>constructor\<close> finds
  the inherited function in \<^verbatim>\<open>htmlSplCharSpace\<close> and is measured as the 35 glyphs of
  that function's string. A plain entry found under a correction key is a string: the
  width becomes the concatenation \<^verbatim>\<open>'7' + '35,14'\<close>, the entry \<^verbatim>\<open>'735,14,14'\<close> is stored
  under the plain key, and the next look-up reads 735 and 14 from it.
\<close>

lemma inherited_name_is_measured:
  "map_option d_width (valueOf (fst (getOriSize surface (manager12 500) ''constructor'' False)))
     = Some 245"
  by code_simp

lemma string_correction_is_stored:
  "fst (calCharDimWithCache surface
          (snd (getOriSize surface (manager12 500) ''ainit'' False)) ''a'' True 1) = NotANumber
   \<and> advKeys afterString = [''ainit12px'', ''a12px'']
   \<and> advCache afterString ''ainit12px'' = Some (CDim 35 14)
   \<and> advCache afterString ''a12px'' = Some (CStr ''735,14,14'')
   \<and> fst (calCharDimWithCache surface afterString ''a'' False 0)
       = Value \<lparr>sz_width = 735, sz_height = 14\<rparr>"
  by code_simp





end
